theory Spec2Isabelle
  imports Complex_Main
begin

section \<open>Exceptions, results and callables\<close>

text \<open>
  The notebooks distinguish exceptions only through two \<open>isinstance\<close> tests: the handler
  \<open>except Exception\<close> (in \<open>retry\<close> and \<open>async_http_client\<close>) and the handler
  \<open>except sqlite3.Error\<close> (in \<open>db_connection\<close>). Python's hierarchy is
  \<open>BaseException > Exception > sqlite3.Error\<close>, so three classes are enough to decide
  every handler of the source. The message is what \<open>print\<close> shows for \<open>{e}\<close>.
\<close>

datatype exc_class = Base_Only | Plain_Exception | Sqlite3_Error

datatype exn = Exn (exn_class: exc_class) (exn_msg: string)

definition is_Exception :: "exn \<Rightarrow> bool" where
  "is_Exception e = (exn_class e \<noteq> Base_Only)"

definition is_sqlite3_Error :: "exn \<Rightarrow> bool" where
  "is_sqlite3_Error e = (exn_class e = Sqlite3_Error)"

text \<open>A call either returns a value or raises.\<close>

datatype 'v result = Return 'v | Raise exn

text \<open>
  A Python callable may read and change state of its own (a counter, the random generator,
  a database): it takes its arguments and the state, and gives its outcome and the new
  state.
\<close>

type_synonym ('a, 's, 'v) callable = "'a \<Rightarrow> 's \<Rightarrow> 'v result \<times> 's"

text \<open>
  The outcome and state of the \<open>n\<close>-th invocation (counted from zero) when the callable is
  invoked again and again on the same arguments.
\<close>

fun nth_call :: "('a, 's, 'v) callable \<Rightarrow> 'a \<Rightarrow> 's \<Rightarrow> nat \<Rightarrow> 'v result \<times> 's" where
  "nth_call func args s 0 = func args s"
| "nth_call func args s (Suc n) = nth_call func args (snd (func args s)) n"

section \<open>The retry decorator (decorators.ipynb)\<close>

text \<open>
  What the wrapper does besides computing its outcome: it invokes \<open>func\<close>, it prints
  \<open>Attempt {attempt + 1}/{tries} failed. Error: "{e}"\<close>, and it calls \<open>sleep(delay)\<close>.
  The delay is a number (\<open>'d\<close>, an ordered type with a zero) handed on to \<open>sleep\<close>
  unchanged; \<open>Sleep d\<close> is the call \<open>sleep(d)\<close>.
\<close>

datatype 'd retry_event =
    Invoke
  | Attempt_Failed int int exn
  | Sleep 'd

text \<open>
  \<open>raise last_exception\<close>: the variable holds \<open>None\<close> until an attempt has failed, and
  raising \<open>None\<close> is itself a \<open>TypeError\<close>.
\<close>

definition raise_None_TypeError :: exn where
  "raise_None_TypeError = Exn Plain_Exception ''exceptions must derive from BaseException''"

fun raise_value :: "exn option \<Rightarrow> 'v result" where
  "raise_value None = Raise raise_None_TypeError"
| "raise_value (Some e) = Raise e"

text \<open>
  \<open>time.sleep\<close> waits for a delay that is not negative and raises \<open>ValueError\<close> for
  a negative one.
\<close>

definition sleep_ValueError :: exn where
  "sleep_ValueError = Exn Plain_Exception ''sleep length must be non-negative''"

definition time_sleep :: "'d::{zero,linorder} \<Rightarrow> unit result" where
  "time_sleep secs = (if secs < 0 then Raise sleep_ValueError else Return ())"

text \<open>
  The body of \<open>wrapped\<close> from the \<open>for\<close> statement on: the list holds the values of
  \<open>attempt\<close> still to come. A successful call returns at once; an \<open>Exception\<close> is
  recorded, printed and followed by a sleep unless \<open>attempt\<close> is \<open>tries - 1\<close>; anything
  that is not an \<open>Exception\<close> is not caught. The sleep is called inside the handler, so
  an exception of \<open>sleep\<close> leaves the loop and the wrapper.
\<close>

fun retry_for :: "int \<Rightarrow> 'd::{zero,linorder} \<Rightarrow> ('a, 's, 'v) callable \<Rightarrow> 'a \<Rightarrow> nat list
    \<Rightarrow> exn option \<Rightarrow> 's \<Rightarrow> 'v result \<times> 's \<times> 'd retry_event list" where
  "retry_for tries delay func args [] last_exception s = (raise_value last_exception, s, [])"
| "retry_for tries delay func args (attempt # rest) last_exception s =
     (case func args s of
        (Return v, s') \<Rightarrow> (Return v, s', [Invoke])
      | (Raise e, s') \<Rightarrow>
          if is_Exception e then
            (if int attempt < tries - 1 then
               (case time_sleep delay of
                  Raise e' \<Rightarrow>
                    (Raise e', s', [Invoke, Attempt_Failed (int attempt + 1) tries e, Sleep delay])
                | Return u \<Rightarrow>
                    (case retry_for tries delay func args rest (Some e) s' of
                       (r, s'', evs) \<Rightarrow>
                         (r, s'',
                          [Invoke, Attempt_Failed (int attempt + 1) tries e, Sleep delay] @ evs)))
             else
               (case retry_for tries delay func args rest (Some e) s' of
                  (r, s'', evs) \<Rightarrow>
                    (r, s'', [Invoke, Attempt_Failed (int attempt + 1) tries e] @ evs)))
          else (Raise e, s', [Invoke]))"

definition wrapped :: "int \<Rightarrow> 'd::{zero,linorder} \<Rightarrow> ('a, 's, 'v) callable \<Rightarrow> 'a \<Rightarrow> 's
    \<Rightarrow> 'v result \<times> 's \<times> 'd retry_event list" where
  "wrapped tries delay func args s = retry_for tries delay func args [0..<nat tries] None s"

text \<open>
  \<open>retry(tries, delay)\<close> returns \<open>decorator\<close>, and \<open>decorator(func)\<close> returns
  \<open>wrapped\<close>; both close over \<open>tries\<close> and \<open>delay\<close>.
\<close>

definition decorator :: "int \<Rightarrow> 'd::{zero,linorder} \<Rightarrow> ('a, 's, 'v) callable \<Rightarrow> 'a \<Rightarrow> 's
    \<Rightarrow> 'v result \<times> 's \<times> 'd retry_event list" where
  "decorator tries delay func = wrapped tries delay func"

definition retry :: "int \<Rightarrow> 'd::{zero,linorder} \<Rightarrow> ('a, 's, 'v) callable \<Rightarrow> 'a \<Rightarrow> 's
    \<Rightarrow> 'v result \<times> 's \<times> 'd retry_event list" where
  "retry tries delay = decorator tries delay"

text \<open>The number of times the underlying callable was invoked.\<close>

definition invocations :: "'d retry_event list \<Rightarrow> nat" where
  "invocations evs = count_list evs Invoke"

text \<open>
  The decorated function of the notebook, \<open>cube\<close>: it sleeps two seconds, draws
  \<open>random()\<close> and raises \<open>ValueError\<close> when the draw is below one half. Its state
  is the sequence of draws still to come and the sleeps done so far.
\<close>

record cube_world =
  draws :: "nat \<Rightarrow> real"
  slept :: "real list"

definition cube_error :: exn where
  "cube_error = Exn Plain_Exception ''Random error during calculation!''"

definition cube :: "(int, cube_world, int) callable" where
  "cube number w =
     (let w1 = w\<lparr>slept := slept w @ [2]\<rparr>;
          x = draws w1 0;
          w2 = w1\<lparr>draws := (\<lambda>n. draws w1 (Suc n))\<rparr>
      in if x < 0.5 then (Raise cube_error, w2) else (Return (number ^ 3), w2))"

section \<open>The logging decorator (decorators.ipynb)\<close>

text \<open>
  \<open>log(coroutine)\<close> returns \<open>wrapper\<close>, modelled as \<open>log_wrapper\<close> (\<open>log\<close> is
  the logarithm in HOL); \<open>name\<close> is \<open>coroutine.__name__\<close>, and \<open>args\<close> stands for
  the positional and keyword arguments together.
  \<open>wrapper\<close> prints the start line (the name of the coroutine and the arguments), awaits
  the coroutine, prints the result and returns it. There is no \<open>try\<close>: when the awaited
  coroutine raises, the two statements after it do not run. The event \<open>Awaited\<close> marks
  the place of the awaited call between the two prints.
\<close>

datatype ('a, 'v) log_event =
    Log_Start string 'a
  | Awaited
  | Log_Result 'v

definition log_wrapper :: "string \<Rightarrow> ('a, 's, 'v) callable \<Rightarrow> 'a \<Rightarrow> 's
    \<Rightarrow> 'v result \<times> 's \<times> ('a, 'v) log_event list" where
  "log_wrapper name coroutine args s =
     (case coroutine args s of
        (Raise e, s') \<Rightarrow> (Raise e, s', [Log_Start name args, Awaited])
      | (Return result, s') \<Rightarrow>
          (Return result, s', [Log_Start name args, Awaited, Log_Result result]))"

text \<open>The coroutine of the notebook: it sleeps two seconds and returns the cube.\<close>

definition async_cube :: "(int, real list, int) callable" where
  "async_cube number s = (Return (number * number * number), s @ [2])"

section \<open>The memoizing decorator (decorators.ipynb)\<close>

text \<open>
  The notebook applies \<open>functools.lru_cache\<close> bare, \<open>@lru_cache\<close>, which is
  \<open>lru_cache(maxsize=128, typed=False)\<close>. The decorator is the standard library's; the
  model follows its wrapper: the cache holds the entries in order of use, most recent
  first. A hit moves the entry to the front and returns the stored result without calling
  the function. A miss calls the function; a raised exception leaves the cache as it was;
  a result is stored at the front, and when the cache already holds \<open>maxsize\<close> entries
  the least recently used one is dropped. With \<open>maxsize = 0\<close> nothing is stored.
  The function does not call its own wrapper.
\<close>

datatype ('k, 'v) cache_event =
    Cache_Hit 'k
  | Executed 'k "'v result"

definition lru_cache_wrapper :: "nat \<Rightarrow> ('k, 's, 'v) callable \<Rightarrow> 'k \<Rightarrow> ('k \<times> 'v) list \<times> 's
    \<Rightarrow> 'v result \<times> (('k \<times> 'v) list \<times> 's) \<times> ('k, 'v) cache_event list" where
  "lru_cache_wrapper maxsize user_function key st =
     (case st of (cache, s) \<Rightarrow>
        if maxsize = 0 then
          (case user_function key s of (r, s') \<Rightarrow> (r, (cache, s'), [Executed key r]))
        else
          (case map_of cache key of
             Some result \<Rightarrow>
               (Return result, ((key, result) # filter (\<lambda>p. fst p \<noteq> key) cache, s),
                [Cache_Hit key])
           | None \<Rightarrow>
               (case user_function key s of
                  (Raise e, s') \<Rightarrow> (Raise e, (cache, s'), [Executed key (Raise e)])
                | (Return result, s') \<Rightarrow>
                    (Return result,
                     ((key, result) # (if length cache \<ge> maxsize then butlast cache else cache), s'),
                     [Executed key (Return result)]))))"

definition lru_default_maxsize :: nat where
  "lru_default_maxsize = 128"

definition lru_cache :: "('k, 's, 'v) callable \<Rightarrow> 'k \<Rightarrow> ('k \<times> 'v) list \<times> 's
    \<Rightarrow> 'v result \<times> (('k \<times> 'v) list \<times> 's) \<times> ('k, 'v) cache_event list" where
  "lru_cache user_function = lru_cache_wrapper lru_default_maxsize user_function"

text \<open>
  A sequence of invocations of one wrapped callable, the cache and the state carried from
  each call to the next: the results in order, the final cache and state, and all events.
\<close>

fun invoke_all :: "(('k \<times> 'v) list \<times> 's
      \<Rightarrow> 'v result \<times> (('k \<times> 'v) list \<times> 's) \<times> ('k, 'v) cache_event list) list
    \<Rightarrow> ('k \<times> 'v) list \<times> 's
    \<Rightarrow> 'v result list \<times> (('k \<times> 'v) list \<times> 's) \<times> ('k, 'v) cache_event list" where
  "invoke_all [] st = ([], st, [])"
| "invoke_all (call # calls) st =
     (case call st of
        (r, st1, evs1) \<Rightarrow>
          (case invoke_all calls st1 of
             (rs, st2, evs2) \<Rightarrow> (r # rs, st2, evs1 @ evs2)))"

text \<open>How often the underlying callable was executed on a key.\<close>

definition executions :: "('k, 'v) cache_event list \<Rightarrow> 'k \<Rightarrow> nat" where
  "executions evs key = length (filter (\<lambda>ev. case ev of Executed k r \<Rightarrow> k = key | _ \<Rightarrow> False) evs)"

text \<open>
  The memoized function of the notebook: no arguments, a sleep of three seconds, the
  result \<open>True\<close>. Its state is the list of sleeps done.
\<close>

definition calculations :: "(unit, real list, bool) callable" where
  "calculations args s = (Return True, s @ [3])"

section \<open>The database context manager (context_manager.ipynb)\<close>

text \<open>
  The operations of \<open>sqlite3\<close> that \<open>db_connection\<close> calls act on a world \<open>'w\<close> (the
  database file, its locks) and may raise. \<open>'c\<close> is the type of connection objects; a
  connection object is truthy, so \<open>if conn:\<close> tests that the variable is no longer
  \<open>None\<close>.
\<close>

record ('c, 'w) sqlite3_api =
  sqlite3_connect :: "string \<Rightarrow> 'w \<Rightarrow> 'c result \<times> 'w"
  conn_commit :: "'c \<Rightarrow> 'w \<Rightarrow> unit result \<times> 'w"
  conn_rollback :: "'c \<Rightarrow> 'w \<Rightarrow> unit result \<times> 'w"
  conn_close :: "'c \<Rightarrow> 'w \<Rightarrow> unit result \<times> 'w"

text \<open>
  The calls the context manager makes, in order; \<open>Db_Yield\<close> is the \<open>yield conn\<close>
  at which the caller's block runs.
\<close>

datatype 'c db_event =
    Db_Connect string
  | Db_Yield 'c
  | Db_Commit 'c
  | Db_Rollback 'c
  | Db_Close 'c

text \<open>
  The \<open>try\<close> suite: connect, run the block at the \<open>yield\<close> (an exception of the block
  is raised there), commit. It gives the outcome, the variable \<open>conn\<close>, the world and the
  events.
\<close>

definition db_try :: "('c, 'w) sqlite3_api \<Rightarrow> string \<Rightarrow> ('c, 'w, 'v) callable \<Rightarrow> 'w
    \<Rightarrow> 'v result \<times> 'c option \<times> 'w \<times> 'c db_event list" where
  "db_try api db_path block w =
     (case sqlite3_connect api db_path w of
        (Raise e, w1) \<Rightarrow> (Raise e, None, w1, [Db_Connect db_path])
      | (Return c, w1) \<Rightarrow>
          (case block c w1 of
             (Raise e, w2) \<Rightarrow> (Raise e, Some c, w2, [Db_Connect db_path, Db_Yield c])
           | (Return v, w2) \<Rightarrow>
               (case conn_commit api c w2 of
                  (Raise e, w3) \<Rightarrow>
                    (Raise e, Some c, w3, [Db_Connect db_path, Db_Yield c, Db_Commit c])
                | (Return u, w3) \<Rightarrow>
                    (Return v, Some c, w3, [Db_Connect db_path, Db_Yield c, Db_Commit c]))))"

text \<open>The handler \<open>except sqlite3.Error\<close>: roll back if connected, then \<open>raise\<close>.\<close>

definition db_except :: "('c, 'w) sqlite3_api \<Rightarrow> exn \<Rightarrow> 'c option \<Rightarrow> 'w
    \<Rightarrow> 'v result \<times> 'w \<times> 'c db_event list" where
  "db_except api e conn w =
     (case conn of
        None \<Rightarrow> (Raise e, w, [])
      | Some c \<Rightarrow>
          (case conn_rollback api c w of
             (Raise e', w') \<Rightarrow> (Raise e', w', [Db_Rollback c])
           | (Return u, w') \<Rightarrow> (Raise e, w', [Db_Rollback c])))"

text \<open>The \<open>finally\<close> suite: close if connected.\<close>

definition db_finally :: "('c, 'w) sqlite3_api \<Rightarrow> 'c option \<Rightarrow> 'w
    \<Rightarrow> unit result \<times> 'w \<times> 'c db_event list" where
  "db_finally api conn w =
     (case conn of
        None \<Rightarrow> (Return (), w, [])
      | Some c \<Rightarrow> (case conn_close api c w of (r, w') \<Rightarrow> (r, w', [Db_Close c])))"

text \<open>
  \<open>with db_connection(db_path) as conn: block\<close>. The handler takes only instances of
  \<open>sqlite3.Error\<close>; the \<open>finally\<close> suite runs on every path, and an exception it raises
  replaces the pending outcome.
\<close>

definition db_connection :: "('c, 'w) sqlite3_api \<Rightarrow> string \<Rightarrow> ('c, 'w, 'v) callable \<Rightarrow> 'w
    \<Rightarrow> 'v result \<times> 'w \<times> 'c db_event list" where
  "db_connection api db_path block w =
     (case db_try api db_path block w of
        (r1, conn, w1, evs1) \<Rightarrow>
          (case (case r1 of
                   Raise e \<Rightarrow>
                     if is_sqlite3_Error e then db_except api e conn w1 else (Raise e, w1, [])
                 | Return v \<Rightarrow> (Return v, w1, [])) of
             (r2, w2, evs2) \<Rightarrow>
               (case db_finally api conn w2 of
                  (Raise e, w3, evs3) \<Rightarrow> (Raise e, w3, evs1 @ evs2 @ evs3)
                | (Return u, w3, evs3) \<Rightarrow> (r2, w3, evs1 @ evs2 @ evs3))))"

section \<open>The file context manager (context_manager.ipynb)\<close>

record ('f, 'w) file_api =
  builtin_open :: "string \<Rightarrow> string \<Rightarrow> 'w \<Rightarrow> 'f result \<times> 'w"
  file_close :: "'f \<Rightarrow> 'w \<Rightarrow> unit result \<times> 'w"

datatype 'f file_event =
    File_Open string string
  | File_Yield 'f
  | File_Close 'f

text \<open>
  \<open>with open_file(path, mode) as file: block\<close>: a \<open>try\<close> with a \<open>finally\<close> suite and no
  handler. A file object is truthy, so \<open>if file:\<close> tests that the file was opened.
\<close>

definition open_file :: "('f, 'w) file_api \<Rightarrow> string \<Rightarrow> string \<Rightarrow> ('f, 'w, 'v) callable \<Rightarrow> 'w
    \<Rightarrow> 'v result \<times> 'w \<times> 'f file_event list" where
  "open_file api path mode block w =
     (case (case builtin_open api path mode w of
              (Raise e, w1) \<Rightarrow> (Raise e, None, w1, [File_Open path mode])
            | (Return f, w1) \<Rightarrow>
                (case block f w1 of
                   (r, w2) \<Rightarrow> (r, Some f, w2, [File_Open path mode, File_Yield f]))) of
        (r1, file, w2, evs1) \<Rightarrow>
          (case file of
             None \<Rightarrow> (r1, w2, evs1)
           | Some f \<Rightarrow>
               (case file_close api f w2 of
                  (Raise e, w3) \<Rightarrow> (Raise e, w3, evs1 @ [File_Close f])
                | (Return u, w3) \<Rightarrow> (r1, w3, evs1 @ [File_Close f]))))"

section \<open>The asynchronous context managers (context_manager.ipynb)\<close>

text \<open>
  The operations of \<open>aiohttp\<close> the two managers call: the constructor
  \<open>ClientSession()\<close>, \<open>session.get(url)\<close>, \<open>response.close()\<close> and
  \<open>session.close()\<close>. One invocation runs on one task, each \<open>await\<close> to completion,
  so the calls are in sequence. Session and response objects are truthy.
\<close>

record ('se, 're, 'w) aiohttp_api =
  client_session :: "'w \<Rightarrow> 'se result \<times> 'w"
  session_get :: "'se \<Rightarrow> string \<Rightarrow> 'w \<Rightarrow> 're result \<times> 'w"
  response_close :: "'re \<Rightarrow> 'w \<Rightarrow> unit result \<times> 'w"
  session_close :: "'se \<Rightarrow> 'w \<Rightarrow> unit result \<times> 'w"

subsection \<open>The class AsyncWeatherFetcher\<close>

record ('se, 're) fetcher =
  city :: string
  format :: string
  session :: "'se option"
  response :: "'re option"

datatype ('se, 're) weather_event =
    Weather_Session_Create
  | Weather_Get 'se string
  | Weather_Yield
  | Weather_Response_Close 're
  | Weather_Session_Close 'se
  | Weather_Print_Error exn

definition fetcher_init :: "string \<Rightarrow> string \<Rightarrow> ('se, 're) fetcher" where
  "fetcher_init c f = \<lparr>city = c, format = f, session = None, response = None\<rparr>"

text \<open>The f-string \<open>https://wttr.in/{self.city}?format={self.format}&lang=ru\<close>.\<close>

definition weather_url :: "string \<Rightarrow> string \<Rightarrow> string" where
  "weather_url c f = ''https://wttr.in/'' @ c @ ''?format='' @ f @ ''&lang=ru''"

text \<open>
  \<open>__aenter__\<close>: the object after the call is given beside the outcome, since the field
  \<open>session\<close> is assigned before \<open>get\<close> is awaited.
\<close>

definition aenter :: "('se, 're, 'w) aiohttp_api \<Rightarrow> ('se, 're) fetcher \<Rightarrow> 'w
    \<Rightarrow> unit result \<times> ('se, 're) fetcher \<times> 'w \<times> ('se, 're) weather_event list" where
  "aenter api self w =
     (case client_session api w of
        (Raise e, w1) \<Rightarrow> (Raise e, self, w1, [Weather_Session_Create])
      | (Return se, w1) \<Rightarrow>
          (let self1 = self\<lparr>session := Some se\<rparr>;
               url = weather_url (city self1) (format self1)
           in case session_get api se url w1 of
                (Raise e, w2) \<Rightarrow> (Raise e, self1, w2, [Weather_Session_Create, Weather_Get se url])
              | (Return re, w2) \<Rightarrow>
                  (Return (), self1\<lparr>response := Some re\<rparr>, w2,
                   [Weather_Session_Create, Weather_Get se url])))"

text \<open>
  \<open>__aexit__\<close>: close the response, close the session, print the error if there is one.
  It returns \<open>None\<close>, so it never suppresses the exception of the block.
\<close>

definition aexit :: "('se, 're, 'w) aiohttp_api \<Rightarrow> ('se, 're) fetcher \<Rightarrow> exn option \<Rightarrow> 'w
    \<Rightarrow> unit result \<times> 'w \<times> ('se, 're) weather_event list" where
  "aexit api self exc w =
     (case (case response self of
              None \<Rightarrow> (Return (), w, [])
            | Some re \<Rightarrow>
                (case response_close api re w of (r, w1) \<Rightarrow> (r, w1, [Weather_Response_Close re]))) of
        (Raise e, w1, evs1) \<Rightarrow> (Raise e, w1, evs1)
      | (Return u, w1, evs1) \<Rightarrow>
          (case (case session self of
                   None \<Rightarrow> (Return (), w1, [])
                 | Some se \<Rightarrow>
                     (case session_close api se w1 of
                        (r, w2) \<Rightarrow> (r, w2, [Weather_Session_Close se]))) of
             (Raise e, w2, evs2) \<Rightarrow> (Raise e, w2, evs1 @ evs2)
           | (Return u', w2, evs2) \<Rightarrow>
               (Return (), w2,
                evs1 @ evs2 @ (case exc of None \<Rightarrow> [] | Some e \<Rightarrow> [Weather_Print_Error e]))))"

text \<open>
  \<open>async with AsyncWeatherFetcher(city, format) as fetcher: block\<close>. The statement calls
  \<open>__aexit__\<close> only when \<open>__aenter__\<close> has returned.
\<close>

definition async_with_fetcher :: "('se, 're, 'w) aiohttp_api \<Rightarrow> string \<Rightarrow> string
    \<Rightarrow> (('se, 're) fetcher, 'w, 'v) callable \<Rightarrow> 'w
    \<Rightarrow> 'v result \<times> 'w \<times> ('se, 're) weather_event list" where
  "async_with_fetcher api c f block w =
     (case aenter api (fetcher_init c f) w of
        (Raise e, self, w1, evs1) \<Rightarrow> (Raise e, w1, evs1)
      | (Return u, self, w1, evs1) \<Rightarrow>
          (case block self w1 of
             (Raise e, w2) \<Rightarrow>
               (case aexit api self (Some e) w2 of
                  (Raise e', w3, evs3) \<Rightarrow> (Raise e', w3, evs1 @ [Weather_Yield] @ evs3)
                | (Return u', w3, evs3) \<Rightarrow> (Raise e, w3, evs1 @ [Weather_Yield] @ evs3))
           | (Return v, w2) \<Rightarrow>
               (case aexit api self None w2 of
                  (Raise e', w3, evs3) \<Rightarrow> (Raise e', w3, evs1 @ [Weather_Yield] @ evs3)
                | (Return u', w3, evs3) \<Rightarrow> (Return v, w3, evs1 @ [Weather_Yield] @ evs3))))"

subsection \<open>The generator async_http_client\<close>

datatype 'se http_event =
    Http_Session_Create
  | Http_Print_Opening string
  | Http_Yield 'se
  | Http_Print_Finished
  | Http_Print_Error exn
  | Http_Session_Close 'se
  | Http_Print_Closed

text \<open>
  \<open>async with async_http_client(url) as client: block\<close>. The session is created before
  the \<open>try\<close>; the handler takes instances of \<open>Exception\<close>, prints and re-raises; the
  \<open>finally\<close> suite closes the session and then prints.
\<close>

definition async_http_client :: "('se, 're, 'w) aiohttp_api \<Rightarrow> string \<Rightarrow> ('se, 'w, 'v) callable \<Rightarrow> 'w
    \<Rightarrow> 'v result \<times> 'w \<times> 'se http_event list" where
  "async_http_client api url block w =
     (case client_session api w of
        (Raise e, w1) \<Rightarrow> (Raise e, w1, [Http_Session_Create])
      | (Return se, w1) \<Rightarrow>
          (case (case block se w1 of
                   (Raise e, w2) \<Rightarrow>
                     (Raise e, w2,
                      [Http_Print_Opening url, Http_Yield se]
                      @ (if is_Exception e then [Http_Print_Error e] else []))
                 | (Return v, w2) \<Rightarrow>
                     (Return v, w2, [Http_Print_Opening url, Http_Yield se, Http_Print_Finished])) of
             (r1, w2, evs1) \<Rightarrow>
               (case session_close api se w2 of
                  (Raise e, w3) \<Rightarrow>
                    (Raise e, w3, [Http_Session_Create] @ evs1 @ [Http_Session_Close se])
                | (Return u, w3) \<Rightarrow>
                    (r1, w3,
                     [Http_Session_Create] @ evs1 @ [Http_Session_Close se, Http_Print_Closed]))))"

section \<open>Auxiliary definitions\<close>

text \<open>The state in which the \<open>n\<close>-th invocation of a repeatedly invoked callable starts.\<close>

fun state_after :: "('a, 's, 'v) callable \<Rightarrow> 'a \<Rightarrow> 's \<Rightarrow> nat \<Rightarrow> 's" where
  "state_after func args s 0 = s"
| "state_after func args s (Suc n) = state_after func args (snd (func args s)) n"

text \<open>The events of one failed attempt of \<open>retry\<close>, as the loop body produces them.\<close>

definition fail_events :: "int \<Rightarrow> 'd \<Rightarrow> nat \<Rightarrow> exn \<Rightarrow> 'd retry_event list" where
  "fail_events tries delay j ex =
     [Invoke, Attempt_Failed (int j + 1) tries ex] @ (if int j < tries - 1 then [Sleep delay] else [])"

text \<open>How often a trace closes the file, and how often it closes the session.\<close>

definition file_closes :: "'f file_event list \<Rightarrow> nat" where
  "file_closes evs = length (filter (\<lambda>ev. case ev of File_Close f \<Rightarrow> True | _ \<Rightarrow> False) evs)"

definition http_closes :: "'se http_event list \<Rightarrow> nat" where
  "http_closes evs =
     length (filter (\<lambda>ev. case ev of Http_Session_Close se \<Rightarrow> True | _ \<Rightarrow> False) evs)"

subsection \<open>Concrete inputs\<close>

text \<open>
  Two sequences of draws for \<open>cube\<close>: below one half twice and above it from then on (the
  run printed in the notebook), and below one half throughout.
\<close>

definition third_time_lucky :: cube_world where
  "third_time_lucky = \<lparr>draws = (\<lambda>n. if n < 2 then 1 / 10 else 9 / 10), slept = []\<rparr>"

definition never_lucky :: cube_world where
  "never_lucky = \<lparr>draws = (\<lambda>n. 1 / 10), slept = []\<rparr>"

text \<open>
  The worlds of the concrete inputs below are journals: the list of the calls the library
  and the block have seen, in order.

  Blocks for the \<open>with\<close> statements (and coroutines for the logging decorator): one that
  raises a given exception and one that returns.
\<close>

definition raising_block :: "exn \<Rightarrow> ('h, string list, unit) callable" where
  "raising_block e h w = (Raise e, w @ [''block''])"

definition returning_block :: "('h, string list, unit) callable" where
  "returning_block h w = (Return (), w @ [''block''])"

text \<open>A callable of one argument that returns its argument.\<close>

definition echo :: "(nat, unit, nat) callable" where
  "echo k s = (Return k, s)"

text \<open>
  Libraries whose calls all return (handles are numbers), and libraries whose acquisition
  fails.
\<close>

definition mock_sqlite3 :: "(nat, string list) sqlite3_api" where
  "mock_sqlite3 =
     \<lparr>sqlite3_connect = (\<lambda>p w. (Return 0, w @ [''connect''])),
      conn_commit = (\<lambda>c w. (Return (), w @ [''commit''])),
      conn_rollback = (\<lambda>c w. (Return (), w @ [''rollback''])),
      conn_close = (\<lambda>c w. (Return (), w @ [''close'']))\<rparr>"

definition database_locked :: exn where
  "database_locked = Exn Sqlite3_Error ''database is locked''"

definition value_error :: exn where
  "value_error = Exn Plain_Exception ''invalid literal''"

definition unable_to_open :: exn where
  "unable_to_open = Exn Sqlite3_Error ''unable to open database file''"

definition unopenable_sqlite3 :: "(nat, string list) sqlite3_api" where
  "unopenable_sqlite3 =
     mock_sqlite3\<lparr>sqlite3_connect := (\<lambda>p w. (Raise unable_to_open, w @ [''connect'']))\<rparr>"

definition mock_files :: "(nat, string list) file_api" where
  "mock_files =
     \<lparr>builtin_open = (\<lambda>p m w. (Return 3, w @ [''open''])),
      file_close = (\<lambda>f w. (Return (), w @ [''close'']))\<rparr>"

definition no_such_file :: exn where
  "no_such_file = Exn Plain_Exception ''No such file or directory''"

definition missing_files :: "(nat, string list) file_api" where
  "missing_files = mock_files\<lparr>builtin_open := (\<lambda>p m w. (Raise no_such_file, w @ [''open'']))\<rparr>"

definition mock_aiohttp :: "(nat, nat, string list) aiohttp_api" where
  "mock_aiohttp =
     \<lparr>client_session = (\<lambda>w. (Return 1, w @ [''ClientSession''])),
      session_get = (\<lambda>se url w. (Return 2, w @ [''get''])),
      response_close = (\<lambda>re w. (Return (), w @ [''response.close''])),
      session_close = (\<lambda>se w. (Return (), w @ [''session.close'']))\<rparr>"

definition cannot_connect :: exn where
  "cannot_connect = Exn Plain_Exception ''Cannot connect to host wttr.in:443''"

definition unreachable_aiohttp :: "(nat, nat, string list) aiohttp_api" where
  "unreachable_aiohttp =
     mock_aiohttp\<lparr>session_get := (\<lambda>se url w. (Raise cannot_connect, w @ [''get'']))\<rparr>"

section \<open>Retry: the loop\<close>

lemma nth_call_state_after: "nth_call func args s n = func args (state_after func args s n)"
  by (induction n arbitrary: s) simp_all

lemma state_after_Suc: "state_after func args s (Suc n) = snd (nth_call func args s n)"
  by (induction n arbitrary: s) simp_all

text \<open>
  As long as the attempts fail with instances of \<open>Exception\<close>, the loop goes on: after
  \<open>k\<close> such attempts it stands at \<open>attempt = i + k\<close> with the last failure recorded.
\<close>

lemma retry_for_failures:
  assumes "\<forall>j<k. fst (nth_call func args s j) = Raise (e j) \<and> is_Exception (e j)"
    and "i + k \<le> n"
    and "time_sleep delay = Return ()"
  shows "retry_for tries delay func args [i..<n] le s =
     (case retry_for tries delay func args [i + k..<n] (if k = 0 then le else Some (e (k - 1)))
             (state_after func args s k) of
        (r, s', evs) \<Rightarrow>
          (r, s', concat (map (\<lambda>j. fail_events tries delay (i + j) (e j)) [0..<k]) @ evs))"
  using assms
proof (induction k arbitrary: i s le e)
  case 0
  then show ?case by (simp split: prod.splits)
next
  case (Suc k)
  from Suc.prems(1) have first: "fst (func args s) = Raise (e 0)" "is_Exception (e 0)"
    using Suc.prems(1)[rule_format, of 0] by simp_all
  obtain s1 where s1: "func args s = (Raise (e 0), s1)"
    using first(1) by (cases "func args s") simp
  have rest: "\<forall>j<k. fst (nth_call func args s1 j) = Raise ((e \<circ> Suc) j) \<and> is_Exception ((e \<circ> Suc) j)"
    using Suc.prems(1) s1 by (auto dest: spec[where x="Suc j" for j])
  have lt: "i < n" using Suc.prems(2) by simp
  have ih: "retry_for tries delay func args [Suc i..<n] (Some (e 0)) s1 =
     (case retry_for tries delay func args [Suc i + k..<n]
             (if k = 0 then Some (e 0) else Some ((e \<circ> Suc) (k - 1)))
             (state_after func args s1 k) of
        (r, s', evs) \<Rightarrow>
          (r, s', concat (map (\<lambda>j. fail_events tries delay (Suc i + j) ((e \<circ> Suc) j)) [0..<k]) @ evs))"
    using Suc.IH[OF rest, of "Suc i" "Some (e 0)"] Suc.prems(2,3) by simp
  have leq: "(if k = 0 then Some (e 0) else Some ((e \<circ> Suc) (k - 1))) = Some (e k)"
    by (cases k) simp_all
  have cat: "concat (map (\<lambda>j. fail_events tries delay (i + j) (e j)) [0..<Suc k]) =
      fail_events tries delay i (e 0) @
      concat (map (\<lambda>j. fail_events tries delay (Suc i + j) ((e \<circ> Suc) j)) [0..<k])"
  proof -
    have "[0..<Suc k] = 0 # map Suc [0..<k]"
      by (simp add: upt_conv_Cons map_Suc_upt del: upt_Suc)
    then show ?thesis by (simp add: comp_def del: upt_Suc)
  qed
  show ?case
    unfolding upt_conv_Cons[OF lt] cat
    using s1 first(2) ih leq Suc.prems(3)
    by (simp add: fail_events_def split: prod.splits)
qed

lemma retry_for_success:
  assumes "k < n"
    and "\<forall>j<k. fst (nth_call func args s j) = Raise (e j) \<and> is_Exception (e j)"
    and "nth_call func args s k = (Return v, s')"
    and "time_sleep delay = Return ()"
  shows "retry_for tries delay func args [0..<n] None s =
     (Return v, s', concat (map (\<lambda>j. fail_events tries delay j (e j)) [0..<k]) @ [Invoke])"
proof -
  have "func args (state_after func args s k) = (Return v, s')"
    using assms(3) by (simp add: nth_call_state_after)
  then show ?thesis
    using retry_for_failures[OF assms(2), of 0 n delay tries None] assms(1,4)
    by (simp add: upt_conv_Cons[of k n])
qed

lemma retry_for_exhausted:
  assumes "0 < n"
    and "\<forall>j<n. fst (nth_call func args s j) = Raise (e j) \<and> is_Exception (e j)"
    and "time_sleep delay = Return ()"
  shows "retry_for tries delay func args [0..<n] None s =
     (Raise (e (n - 1)), snd (nth_call func args s (n - 1)),
      concat (map (\<lambda>j. fail_events tries delay j (e j)) [0..<n]))"
proof -
  obtain m where m: "n = Suc m" using assms(1) by (cases n) simp_all
  show ?thesis
    using retry_for_failures[OF assms(2), of 0 n delay tries None] assms(1,3)
    by (simp add: m state_after_Suc del: state_after.simps upt_Suc)
qed

text \<open>The runs of \<open>cube\<close> on the two sequences of draws.\<close>

lemma cube_third_time_lucky:
  "\<forall>j<2. fst (nth_call cube 3 third_time_lucky j) = Raise cube_error"
  "fst (nth_call cube 3 third_time_lucky 2) = Return 27"
  by (simp_all add: cube_def third_time_lucky_def Let_def numeral_2_eq_2 All_less_Suc)

lemma cube_never_lucky:
  "\<forall>j<3. fst (nth_call cube 3 never_lucky j) = Raise cube_error"
  by (simp add: cube_def never_lucky_def Let_def numeral_3_eq_3 All_less_Suc)

lemma cube_error_is_Exception: "is_Exception cube_error"
  by (simp add: cube_error_def is_Exception_def)

section \<open>Retry: theorems\<close>

text \<open>
  C10. With \<open>tries = 0\<close> the loop body never runs: the underlying callable is not invoked,
  no result is returned, and the wrapper fails on \<open>raise last_exception\<close> with
  \<open>last_exception\<close> still \<open>None\<close>, whatever the callable and the arguments are.
\<close>

theorem retry_zero_tries:
  "retry 0 delay func args s = (Raise raise_None_TypeError, s, [])"
  by (simp add: retry_def decorator_def[abs_def] wrapped_def)

text \<open>
  C4. With \<open>tries = 3\<close> and \<open>delay = 0\<close>: a callable whose first two invocations fail
  (raise an \<open>Exception\<close>) and whose third returns \<open>v\<close> makes the wrapped call return \<open>v\<close>
  after exactly three invocations; a callable whose invocations all fail (the first three
  are all the wrapper gets to see) makes the wrapped call raise the failure of the third
  invocation, again after exactly three invocations.
\<close>

theorem retry_three_tries:
  "((\<forall>j<2. \<exists>e. fst (nth_call func args s j) = Raise e \<and> is_Exception e)
      \<and> nth_call func args s 2 = (Return v, s')
    \<longrightarrow> (\<exists>evs. retry 3 (0::'d::{zero,linorder}) func args s = (Return v, s', evs) \<and> invocations evs = 3))
   \<and> ((\<forall>j<3. \<exists>e. fst (nth_call func args s j) = Raise e \<and> is_Exception e)
    \<longrightarrow> (\<exists>e s' evs. retry 3 (0::'d::{zero,linorder}) func args s = (Raise e, s', evs)
            \<and> nth_call func args s 2 = (Raise e, s') \<and> invocations evs = 3))"
proof (intro conjI impI)
  assume h: "(\<forall>j<2. \<exists>e. fst (nth_call func args s j) = Raise e \<and> is_Exception e)
      \<and> nth_call func args s 2 = (Return v, s')"
  then obtain e where e: "\<forall>j<2. fst (nth_call func args s j) = Raise (e j) \<and> is_Exception (e j)"
    by metis
  have "retry_for 3 (0::'d) func args [0..<3] None s =
     (Return v, s', concat (map (\<lambda>j. fail_events 3 0 j (e j)) [0..<2]) @ [Invoke])"
    using retry_for_success[of 2 3 func args s e v s' "0::'d" 3] e h
    by (simp add: time_sleep_def)
  then show "\<exists>evs. retry 3 (0::'d) func args s = (Return v, s', evs) \<and> invocations evs = 3"
    by (simp add: retry_def decorator_def[abs_def] wrapped_def invocations_def fail_events_def numeral_2_eq_2)
next
  assume "\<forall>j<3. \<exists>e. fst (nth_call func args s j) = Raise e \<and> is_Exception e"
  then obtain e where e: "\<forall>j<3. fst (nth_call func args s j) = Raise (e j) \<and> is_Exception (e j)"
    by metis
  have "retry_for 3 (0::'d) func args [0..<3] None s =
     (Raise (e 2), snd (nth_call func args s 2),
      concat (map (\<lambda>j. fail_events 3 0 j (e j)) [0..<3]))"
    using retry_for_exhausted[of 3 func args s e "0::'d" 3] e
    by (simp add: time_sleep_def)
  moreover have "nth_call func args s 2 = (Raise (e 2), snd (nth_call func args s 2))"
    using e[rule_format, of 2] by (cases "nth_call func args s 2") simp
  ultimately show "\<exists>e s' evs. retry 3 (0::'d) func args s = (Raise e, s', evs)
            \<and> nth_call func args s 2 = (Raise e, s') \<and> invocations evs = 3"
    by (simp add: retry_def decorator_def[abs_def] wrapped_def invocations_def fail_events_def numeral_3_eq_3)
qed

theorem retry_three_tries_witness:
  "fst (nth_call cube 3 third_time_lucky 0) = Raise cube_error
   \<and> fst (nth_call cube 3 third_time_lucky 1) = Raise cube_error
   \<and> is_Exception cube_error
   \<and> fst (nth_call cube 3 third_time_lucky 2) = Return 27
   \<and> (\<exists>evs. fst (retry 3 (0::real) cube 3 third_time_lucky) = Return 27
          \<and> snd (snd (retry 3 (0::real) cube 3 third_time_lucky)) = evs \<and> invocations evs = 3)
   \<and> fst (nth_call cube 3 never_lucky 0) = Raise cube_error
   \<and> fst (nth_call cube 3 never_lucky 1) = Raise cube_error
   \<and> fst (nth_call cube 3 never_lucky 2) = Raise cube_error
   \<and> (\<exists>evs. fst (retry 3 (0::real) cube 3 never_lucky) = Raise cube_error
          \<and> snd (snd (retry 3 (0::real) cube 3 never_lucky)) = evs \<and> invocations evs = 3)"
proof -
  have a: "\<forall>j<2. \<exists>e. fst (nth_call cube 3 third_time_lucky j) = Raise e \<and> is_Exception e"
    using cube_third_time_lucky(1) cube_error_is_Exception by blast
  have b: "nth_call cube 3 third_time_lucky 2 = (Return 27, snd (nth_call cube 3 third_time_lucky 2))"
    using cube_third_time_lucky(2) by (cases "nth_call cube 3 third_time_lucky 2") simp
  have c: "\<forall>j<3. \<exists>e. fst (nth_call cube 3 never_lucky j) = Raise e \<and> is_Exception e"
    using cube_never_lucky cube_error_is_Exception by blast
  from retry_three_tries[of cube 3 third_time_lucky 27 "snd (nth_call cube 3 third_time_lucky 2)",
      where 'd = real] a b
  have good: "\<exists>evs. fst (retry 3 (0::real) cube 3 third_time_lucky) = Return 27
          \<and> snd (snd (retry 3 (0::real) cube 3 third_time_lucky)) = evs \<and> invocations evs = 3"
    by auto
  have third: "fst (nth_call cube 3 never_lucky 2) = Raise cube_error"
    using cube_never_lucky by simp
  have "\<exists>e s' evs. retry 3 (0::real) cube 3 never_lucky = (Raise e, s', evs)
            \<and> nth_call cube 3 never_lucky 2 = (Raise e, s') \<and> invocations evs = 3"
    using retry_three_tries[of cube 3 never_lucky 0 never_lucky, where 'd = real] c by blast
  then obtain e s' evs where run: "retry 3 (0::real) cube 3 never_lucky = (Raise e, s', evs)"
    and e: "nth_call cube 3 never_lucky 2 = (Raise e, s')" and n: "invocations evs = 3"
    by blast
  have "e = cube_error" using e third by simp
  then have bad: "\<exists>evs. fst (retry 3 (0::real) cube 3 never_lucky) = Raise cube_error
          \<and> snd (snd (retry 3 (0::real) cube 3 never_lucky)) = evs \<and> invocations evs = 3"
    using run n by simp
  show ?thesis
    using cube_third_time_lucky(1)[rule_format, of 0] cube_third_time_lucky(1)[rule_format, of 1]
      cube_error_is_Exception cube_third_time_lucky(2) good
      cube_never_lucky[rule_format, of 0] cube_never_lucky[rule_format, of 1] third bad
    by simp
qed




section \<open>The logging decorator: theorem\<close>

text \<open>
  C6. One invocation of the wrapped coroutine prints the start line (name and arguments)
  before the coroutine is awaited. When the coroutine returns, the result line is printed
  once, after it, and the same result is returned with the coroutine's effects. When the
  coroutine raises, the same exception reaches the caller with the coroutine's effects and
  nothing is printed after the start line.
\<close>

theorem log_wrapper_start_and_result:
  "(coroutine args s = (Return v, s')
      \<longrightarrow> log_wrapper name coroutine args s =
            (Return v, s', [Log_Start name args, Awaited, Log_Result v]))
   \<and> (coroutine args s = (Raise e, s')
      \<longrightarrow> log_wrapper name coroutine args s = (Raise e, s', [Log_Start name args, Awaited]))"
  by (simp add: log_wrapper_def)

theorem log_wrapper_start_and_result_witness:
  "async_cube 3 [] = (Return 27, [2])
   \<and> log_wrapper ''cube'' async_cube 3 [] =
       (Return 27, [2], [Log_Start ''cube'' 3, Awaited, Log_Result 27])
   \<and> raising_block value_error (3::int) [] = (Raise value_error, [''block''])
   \<and> log_wrapper ''cube'' (raising_block value_error) (3::int) [] =
       (Raise value_error, [''block''], [Log_Start ''cube'' 3, Awaited])"
proof -
  have a: "async_cube 3 [] = (Return 27, [2])" by (simp add: async_cube_def)
  have b: "raising_block value_error (3::int) [] = (Raise value_error, [''block''])"
    by (simp add: raising_block_def)
  show ?thesis
    using a b
      log_wrapper_start_and_result[of async_cube 3 "[]" 27 "[2]" "''cube''"]
      log_wrapper_start_and_result[of "raising_block value_error" "3::int" "[]" _ "[''block'']"
        "''cube''" value_error]
    by simp
qed

section \<open>The database context manager: theorems\<close>

text \<open>
  C2, as the code has it. When the connection was opened and the block raises \<open>e\<close>, the
  connection is closed last on every path, and a rollback precedes the close exactly when
  \<open>e\<close> is an instance of \<open>sqlite3.Error\<close>. When the rollback (if any) and the close
  return, the caller gets \<open>e\<close> itself.
\<close>

theorem db_block_failure:
  assumes "sqlite3_connect api db_path w = (Return c, w1)" and "block c w1 = (Raise e, w2)"
  shows "snd (snd (db_connection api db_path block w)) =
           [Db_Connect db_path, Db_Yield c] @ (if is_sqlite3_Error e then [Db_Rollback c] else [])
           @ [Db_Close c]
       \<and> (is_sqlite3_Error e \<and> conn_rollback api c w2 = (Return (), w3)
            \<and> conn_close api c w3 = (Return (), w4)
          \<longrightarrow> db_connection api db_path block w =
                (Raise e, w4, [Db_Connect db_path, Db_Yield c, Db_Rollback c, Db_Close c]))
       \<and> (\<not> is_sqlite3_Error e \<and> conn_close api c w2 = (Return (), w3)
          \<longrightarrow> db_connection api db_path block w =
                (Raise e, w3, [Db_Connect db_path, Db_Yield c, Db_Close c]))"
  using assms
  by (auto simp: db_connection_def db_try_def db_except_def db_finally_def
           split: prod.splits result.splits)

theorem db_block_failure_witness:
  "sqlite3_connect mock_sqlite3 ''test.db'' [] = (Return 0, [''connect''])
   \<and> raising_block database_locked (0::nat) [''connect''] =
       (Raise database_locked, [''connect'', ''block''])
   \<and> is_sqlite3_Error database_locked
   \<and> conn_rollback mock_sqlite3 0 [''connect'', ''block''] =
       (Return (), [''connect'', ''block'', ''rollback''])
   \<and> conn_close mock_sqlite3 0 [''connect'', ''block'', ''rollback''] =
       (Return (), [''connect'', ''block'', ''rollback'', ''close''])
   \<and> db_connection mock_sqlite3 ''test.db'' (raising_block database_locked) [] =
       (Raise database_locked, [''connect'', ''block'', ''rollback'', ''close''],
        [Db_Connect ''test.db'', Db_Yield 0, Db_Rollback 0, Db_Close 0])
   \<and> raising_block value_error (0::nat) [''connect''] =
       (Raise value_error, [''connect'', ''block''])
   \<and> \<not> is_sqlite3_Error value_error
   \<and> conn_close mock_sqlite3 0 [''connect'', ''block''] =
       (Return (), [''connect'', ''block'', ''close''])
   \<and> db_connection mock_sqlite3 ''test.db'' (raising_block value_error) [] =
       (Raise value_error, [''connect'', ''block'', ''close''],
        [Db_Connect ''test.db'', Db_Yield 0, Db_Close 0])"
proof -
  have c: "sqlite3_connect mock_sqlite3 ''test.db'' [] = (Return 0, [''connect''])"
    by (simp add: mock_sqlite3_def)
  have b1: "raising_block database_locked (0::nat) [''connect''] =
      (Raise database_locked, [''connect'', ''block''])"
    by (simp add: raising_block_def)
  have b2: "raising_block value_error (0::nat) [''connect''] =
      (Raise value_error, [''connect'', ''block''])"
    by (simp add: raising_block_def)
  have k: "is_sqlite3_Error database_locked" "\<not> is_sqlite3_Error value_error"
    by (simp_all add: is_sqlite3_Error_def database_locked_def value_error_def)
  have r: "conn_rollback mock_sqlite3 0 [''connect'', ''block''] =
      (Return (), [''connect'', ''block'', ''rollback''])"
    "conn_close mock_sqlite3 0 [''connect'', ''block'', ''rollback''] =
      (Return (), [''connect'', ''block'', ''rollback'', ''close''])"
    "conn_close mock_sqlite3 0 [''connect'', ''block''] =
      (Return (), [''connect'', ''block'', ''close''])"
    by (simp_all add: mock_sqlite3_def)
  have locked: "db_connection mock_sqlite3 ''test.db'' (raising_block database_locked) [] =
       (Raise database_locked, [''connect'', ''block'', ''rollback'', ''close''],
        [Db_Connect ''test.db'', Db_Yield 0, Db_Rollback 0, Db_Close 0])"
    using db_block_failure[of mock_sqlite3 "''test.db''" "[]" 0 "[''connect'']"
        "raising_block database_locked" database_locked "[''connect'', ''block'']"
        "[''connect'', ''block'', ''rollback'']"
        "[''connect'', ''block'', ''rollback'', ''close'']"] c b1 k(1) r(1,2)
    by blast
  have other: "db_connection mock_sqlite3 ''test.db'' (raising_block value_error) [] =
       (Raise value_error, [''connect'', ''block'', ''close''],
        [Db_Connect ''test.db'', Db_Yield 0, Db_Close 0])"
    using db_block_failure[of mock_sqlite3 "''test.db''" "[]" 0 "[''connect'']"
        "raising_block value_error" value_error "[''connect'', ''block'']"
        "[''connect'', ''block'', ''close'']"] c b2 k(2) r(3)
    by blast
  show ?thesis using c b1 b2 k r locked other by blast
qed

text \<open>
  A block that raises an exception which is no \<open>sqlite3.Error\<close>: the connection is closed
  and the exception reaches the caller, but no rollback is made.
\<close>

theorem db_no_rollback_counterexample:
  "db_connection mock_sqlite3 ''test.db'' (raising_block value_error) [] =
     (Raise value_error, [''connect'', ''block'', ''close''],
      [Db_Connect ''test.db'', Db_Yield 0, Db_Close 0])"
  by (simp add: db_connection_def db_try_def db_except_def db_finally_def mock_sqlite3_def
        is_sqlite3_Error_def raising_block_def value_error_def)

section \<open>Acquisition failure in the synchronous context managers\<close>

text \<open>
  C9. When \<open>sqlite3.connect\<close> raises, \<open>db_connection\<close> makes no commit, rollback or
  close, and the caller gets the exception of \<open>connect\<close>; when \<open>open\<close> raises,
  \<open>open_file\<close> makes no close, and the caller gets the exception of \<open>open\<close>.
\<close>

theorem acquisition_failure:
  "(sqlite3_connect api db_path w = (Raise e, w1)
      \<longrightarrow> db_connection api db_path block w = (Raise e, w1, [Db_Connect db_path]))
   \<and> (builtin_open fapi path mode fw = (Raise fe, fw1)
      \<longrightarrow> open_file fapi path mode fblock fw = (Raise fe, fw1, [File_Open path mode]))"
  by (auto simp: db_connection_def db_try_def db_except_def db_finally_def open_file_def)

theorem acquisition_failure_witness:
  "sqlite3_connect unopenable_sqlite3 ''/no/such/dir/test.db'' [] =
       (Raise unable_to_open, [''connect''])
   \<and> db_connection unopenable_sqlite3 ''/no/such/dir/test.db'' returning_block [] =
       (Raise unable_to_open, [''connect''], [Db_Connect ''/no/such/dir/test.db''])
   \<and> builtin_open missing_files ''test.txt'' ''r'' [] = (Raise no_such_file, [''open''])
   \<and> open_file missing_files ''test.txt'' ''r'' returning_block [] =
       (Raise no_such_file, [''open''], [File_Open ''test.txt'' ''r''])"
proof -
  have a: "sqlite3_connect unopenable_sqlite3 ''/no/such/dir/test.db'' [] =
       (Raise unable_to_open, [''connect''])"
    by (simp add: unopenable_sqlite3_def)
  have b: "builtin_open missing_files ''test.txt'' ''r'' [] = (Raise no_such_file, [''open''])"
    by (simp add: missing_files_def)
  show ?thesis
    using a b
      acquisition_failure[of unopenable_sqlite3 "''/no/such/dir/test.db''" "[]"
        unable_to_open "[''connect'']" returning_block
        missing_files "''test.txt''" "''r''" "[]" no_such_file "[''open'']" returning_block]
    by blast
qed

section \<open>The file context manager: theorem\<close>

text \<open>
  C8. No run of \<open>open_file\<close> closes the file more than once. When the file was opened,
  whatever the outcome \<open>r\<close> of the block (a return or a raise), the close is made exactly
  once and after the block; when the close returns, the caller gets the outcome of the
  block.
\<close>

theorem open_file_closes_once:
  "file_closes (snd (snd (open_file api path mode block w))) \<le> 1
   \<and> (builtin_open api path mode w = (Return f, w1) \<and> block f w1 = (r, w2)
      \<longrightarrow> snd (snd (open_file api path mode block w)) =
            [File_Open path mode, File_Yield f, File_Close f]
          \<and> file_closes (snd (snd (open_file api path mode block w))) = 1
          \<and> (file_close api f w2 = (Return (), w3)
             \<longrightarrow> open_file api path mode block w =
                   (r, w3, [File_Open path mode, File_Yield f, File_Close f])))"
  by (auto simp: open_file_def file_closes_def split: prod.splits result.splits)

theorem open_file_closes_once_witness:
  "builtin_open mock_files ''test.txt'' ''w'' [] = (Return 3, [''open''])
   \<and> returning_block (3::nat) [''open''] = (Return (), [''open'', ''block''])
   \<and> file_close mock_files 3 [''open'', ''block''] = (Return (), [''open'', ''block'', ''close''])
   \<and> open_file mock_files ''test.txt'' ''w'' returning_block [] =
       (Return (), [''open'', ''block'', ''close''],
        [File_Open ''test.txt'' ''w'', File_Yield 3, File_Close 3])
   \<and> raising_block value_error (3::nat) [''open''] = (Raise value_error, [''open'', ''block''])
   \<and> open_file mock_files ''test.txt'' ''w'' (raising_block value_error) [] =
       (Raise value_error, [''open'', ''block'', ''close''],
        [File_Open ''test.txt'' ''w'', File_Yield 3, File_Close 3])
   \<and> file_closes (snd (snd (open_file mock_files ''test.txt'' ''w''
         (raising_block value_error) []))) = 1"
proof -
  have a: "builtin_open mock_files ''test.txt'' ''w'' [] = (Return 3, [''open''])"
    "file_close mock_files 3 [''open'', ''block''] = (Return (), [''open'', ''block'', ''close''])"
    by (simp_all add: mock_files_def)
  have b: "returning_block (3::nat) [''open''] = (Return (), [''open'', ''block''])"
    "raising_block value_error (3::nat) [''open''] = (Raise value_error, [''open'', ''block''])"
    by (simp_all add: returning_block_def raising_block_def)
  note ok = open_file_closes_once[of mock_files "''test.txt''" "''w''" returning_block "[]" 3
      "[''open'']" "Return ()" "[''open'', ''block'']" "[''open'', ''block'', ''close'']"]
  note bad = open_file_closes_once[of mock_files "''test.txt''" "''w''" "raising_block value_error"
      "[]" 3 "[''open'']" "Raise value_error" "[''open'', ''block'']"
      "[''open'', ''block'', ''close'']"]
  show ?thesis using a b ok bad by blast
qed

section \<open>The asynchronous context managers: theorems\<close>

text \<open>
  C7. When the session was created and the block raises \<open>e\<close>, \<open>async_http_client\<close>
  closes the session exactly once, and when the close returns the caller gets \<open>e\<close>
  itself, after the close. The same holds for \<open>AsyncWeatherFetcher\<close> once it was entered:
  the response and then the session are closed, once each, the error is printed and the
  caller gets \<open>e\<close>.
\<close>

theorem session_closed_once_on_block_failure:
  "(client_session api w = (Return se, w1) \<and> block se w1 = (Raise e, w2)
      \<longrightarrow> http_closes (snd (snd (async_http_client api url block w))) = 1
        \<and> (session_close api se w2 = (Return (), w3)
           \<longrightarrow> async_http_client api url block w =
                 (Raise e, w3,
                  [Http_Session_Create, Http_Print_Opening url, Http_Yield se]
                  @ (if is_Exception e then [Http_Print_Error e] else [])
                  @ [Http_Session_Close se, Http_Print_Closed])))
   \<and> (client_session api w = (Return se, w1)
        \<and> session_get api se (weather_url c f) w1 = (Return re, v2)
        \<and> fblock ((fetcher_init c f)\<lparr>session := Some se, response := Some re\<rparr>) v2 = (Raise e, v3)
        \<and> response_close api re v3 = (Return (), v4)
        \<and> session_close api se v4 = (Return (), v5)
      \<longrightarrow> async_with_fetcher api c f fblock w =
            (Raise e, v5,
             [Weather_Session_Create, Weather_Get se (weather_url c f), Weather_Yield,
              Weather_Response_Close re, Weather_Session_Close se, Weather_Print_Error e]))"
  by (auto simp: async_http_client_def http_closes_def async_with_fetcher_def aenter_def aexit_def
        fetcher_init_def weather_url_def Let_def split: prod.splits result.splits)

theorem session_closed_once_on_block_failure_witness:
  "client_session mock_aiohttp [] = (Return 1, [''ClientSession''])
   \<and> raising_block value_error (1::nat) [''ClientSession''] =
       (Raise value_error, [''ClientSession'', ''block''])
   \<and> session_close mock_aiohttp 1 [''ClientSession'', ''block''] =
       (Return (), [''ClientSession'', ''block'', ''session.close''])
   \<and> async_http_client mock_aiohttp ''https://api.example.com'' (raising_block value_error) [] =
       (Raise value_error, [''ClientSession'', ''block'', ''session.close''],
        [Http_Session_Create, Http_Print_Opening ''https://api.example.com'', Http_Yield 1]
        @ (if is_Exception value_error then [Http_Print_Error value_error] else [])
        @ [Http_Session_Close 1, Http_Print_Closed])
   \<and> is_Exception value_error
   \<and> session_get mock_aiohttp 1 (weather_url ''Paris'' ''%C+%t'') [''ClientSession''] =
       (Return 2, [''ClientSession'', ''get''])
   \<and> response_close mock_aiohttp 2 [''ClientSession'', ''get'', ''block''] =
       (Return (), [''ClientSession'', ''get'', ''block'', ''response.close''])
   \<and> session_close mock_aiohttp 1 [''ClientSession'', ''get'', ''block'', ''response.close''] =
       (Return (), [''ClientSession'', ''get'', ''block'', ''response.close'', ''session.close''])
   \<and> async_with_fetcher mock_aiohttp ''Paris'' ''%C+%t'' (raising_block value_error) [] =
       (Raise value_error,
        [''ClientSession'', ''get'', ''block'', ''response.close'', ''session.close''],
        [Weather_Session_Create, Weather_Get 1 (weather_url ''Paris'' ''%C+%t''),
         Weather_Yield, Weather_Response_Close 2, Weather_Session_Close 1,
         Weather_Print_Error value_error])
   \<and> weather_url ''Paris'' ''%C+%t'' = ''https://wttr.in/Paris?format=%C+%t&lang=ru''"
proof -
  have a: "client_session mock_aiohttp [] = (Return 1, [''ClientSession''])"
    "session_close mock_aiohttp 1 [''ClientSession'', ''block''] =
       (Return (), [''ClientSession'', ''block'', ''session.close''])"
    "session_get mock_aiohttp 1 (weather_url ''Paris'' ''%C+%t'') [''ClientSession''] =
       (Return 2, [''ClientSession'', ''get''])"
    "response_close mock_aiohttp 2 [''ClientSession'', ''get'', ''block''] =
       (Return (), [''ClientSession'', ''get'', ''block'', ''response.close''])"
    "session_close mock_aiohttp 1 [''ClientSession'', ''get'', ''block'', ''response.close''] =
       (Return (), [''ClientSession'', ''get'', ''block'', ''response.close'', ''session.close''])"
    by (simp_all add: mock_aiohttp_def)
  have u: "weather_url ''Paris'' ''%C+%t'' = ''https://wttr.in/Paris?format=%C+%t&lang=ru''"
    by (simp add: weather_url_def)
  have b: "raising_block value_error (1::nat) [''ClientSession''] =
       (Raise value_error, [''ClientSession'', ''block''])"
    "raising_block value_error
       ((fetcher_init ''Paris'' ''%C+%t'')\<lparr>session := Some (1::nat), response := Some (2::nat)\<rparr>)
       [''ClientSession'', ''get''] =
     (Raise value_error, [''ClientSession'', ''get'', ''block''])"
    by (simp_all add: raising_block_def)
  have k: "is_Exception value_error" by (simp add: is_Exception_def value_error_def)
  note th = session_closed_once_on_block_failure[of mock_aiohttp "[]" 1 "[''ClientSession'']"
      "raising_block value_error" value_error "[''ClientSession'', ''block'']"
      "''https://api.example.com''" "[''ClientSession'', ''block'', ''session.close'']"
      "''Paris''" "''%C+%t''" 2 "[''ClientSession'', ''get'']" "raising_block value_error"
      "[''ClientSession'', ''get'', ''block'']"
      "[''ClientSession'', ''get'', ''block'', ''response.close'']"
      "[''ClientSession'', ''get'', ''block'', ''response.close'', ''session.close'']"]
  show ?thesis using a b k u th by blast
qed

text \<open>
  What \<open>AsyncWeatherFetcher\<close> does once \<open>__aenter__\<close> has returned, for a block that
  returns and for one that raises: the response is closed before the session, and the
  error, if any, is printed after both.
\<close>

lemma fetcher_block_paths:
  "client_session api w = (Return se, w1)
     \<and> session_get api se (weather_url c f) w1 = (Return re, w2)
     \<and> block ((fetcher_init c f)\<lparr>session := Some se, response := Some re\<rparr>) w2 = (r, w3)
     \<and> response_close api re w3 = (Return (), w4)
     \<and> session_close api se w4 = (Return (), w5)
   \<longrightarrow> async_with_fetcher api c f block w =
         (r, w5,
          [Weather_Session_Create, Weather_Get se (weather_url c f), Weather_Yield,
           Weather_Response_Close re, Weather_Session_Close se]
          @ (case r of Raise e \<Rightarrow> [Weather_Print_Error e] | Return v \<Rightarrow> []))"
  by (auto simp: async_with_fetcher_def aenter_def aexit_def fetcher_init_def weather_url_def Let_def
        split: result.splits)

text \<open>
  C3, the path on which the code parts from it. When the session was created and
  \<open>session.get\<close> raises inside \<open>__aenter__\<close>, the statement never calls \<open>__aexit__\<close>:
  the exception reaches the caller at once, the session is not closed and nothing is
  printed.
\<close>

theorem fetcher_get_failure_leaves_session_open:
  "client_session api w = (Return se, w1)
     \<and> session_get api se (weather_url c f) w1 = (Raise e, w2)
   \<longrightarrow> async_with_fetcher api c f block w =
         (Raise e, w2, [Weather_Session_Create, Weather_Get se (weather_url c f)])"
  by (auto simp: async_with_fetcher_def aenter_def fetcher_init_def weather_url_def Let_def)

theorem fetcher_get_failure_leaves_session_open_witness:
  "client_session unreachable_aiohttp [] = (Return 1, [''ClientSession''])
   \<and> session_get unreachable_aiohttp 1 (weather_url ''Paris'' ''%C+%t+%w+%h'') [''ClientSession''] =
       (Raise cannot_connect, [''ClientSession'', ''get''])
   \<and> async_with_fetcher unreachable_aiohttp ''Paris'' ''%C+%t+%w+%h'' returning_block [] =
       (Raise cannot_connect, [''ClientSession'', ''get''],
        [Weather_Session_Create, Weather_Get 1 (weather_url ''Paris'' ''%C+%t+%w+%h'')])
   \<and> weather_url ''Paris'' ''%C+%t+%w+%h'' = ''https://wttr.in/Paris?format=%C+%t+%w+%h&lang=ru''"
proof -
  have a: "client_session unreachable_aiohttp [] = (Return 1, [''ClientSession''])"
    by (simp add: unreachable_aiohttp_def mock_aiohttp_def)
  have u: "weather_url ''Paris'' ''%C+%t+%w+%h'' =
      ''https://wttr.in/Paris?format=%C+%t+%w+%h&lang=ru''"
    by (simp add: weather_url_def)
  have g: "session_get unreachable_aiohttp 1 (weather_url ''Paris'' ''%C+%t+%w+%h'')
        [''ClientSession''] = (Raise cannot_connect, [''ClientSession'', ''get''])"
    by (simp add: unreachable_aiohttp_def)
  note th = fetcher_get_failure_leaves_session_open[of unreachable_aiohttp "[]" 1
      "[''ClientSession'']" "''Paris''" "''%C+%t+%w+%h''" cannot_connect
      "[''ClientSession'', ''get'']" returning_block]
  show ?thesis using a g u th by blast
qed

section \<open>The memoizing decorator: theorems\<close>

text \<open>One call through the wrapper while the cache has room and the function returns.\<close>

lemma map_of_filter_other:
  "k' \<noteq> k \<Longrightarrow> map_of (filter (\<lambda>p. fst p \<noteq> k) xs) k' = map_of xs k'"
  by (induction xs) auto

lemma executions_append: "executions (xs @ ys) k = executions xs k + executions ys k"
  by (simp add: executions_def)

lemma lru_step:
  assumes pos: "0 < maxsize"
    and dist: "distinct (map fst cache)"
    and room: "card (insert k (fst ` set cache)) \<le> maxsize"
    and ok: "\<exists>v. fst (f k s) = Return v"
  shows "\<exists>v cache1 s1.
      lru_cache_wrapper maxsize f k (cache, s) =
        (Return v, (cache1, s1),
         if k \<in> fst ` set cache then [Cache_Hit k] else [Executed k (Return v)])
      \<and> distinct (map fst cache1)
      \<and> fst ` set cache1 = insert k (fst ` set cache)
      \<and> map_of cache1 = (map_of cache)(k \<mapsto> v)"
proof (cases "map_of cache k")
  case None
  then have notin: "k \<notin> fst ` set cache" by (simp add: map_of_eq_None_iff)
  obtain v s1 where f: "f k s = (Return v, s1)" using ok by (cases "f k s") auto
  have "card (fst ` set cache) = length cache"
    using dist by (metis distinct_card length_map set_map)
  then have len: "length cache < maxsize"
    using room notin by (simp add: card_insert_if)
  have "lru_cache_wrapper maxsize f k (cache, s) =
        (Return v, ((k, v) # cache, s1), [Executed k (Return v)])"
    using pos None f len by (simp add: lru_cache_wrapper_def)
  then show ?thesis using notin dist by auto
next
  case (Some v)
  then have isin: "k \<in> fst ` set cache" by (metis map_of_eq_None_iff option.distinct(1))
  let ?c1 = "(k, v) # filter (\<lambda>p. fst p \<noteq> k) cache"
  have run: "lru_cache_wrapper maxsize f k (cache, s) = (Return v, (?c1, s), [Cache_Hit k])"
    using pos Some by (simp add: lru_cache_wrapper_def)
  have d: "distinct (map fst ?c1)"
    using dist by (auto simp: distinct_map_filter)
  have keys: "fst ` set ?c1 = insert k (fst ` set cache)"
    using isin by force
  have m: "map_of ?c1 = (map_of cache)(k \<mapsto> v)"
    by (rule ext) (simp add: map_of_filter_other)
  show ?thesis using run d keys m isin by auto
qed

lemma invoke_all_lru:
  assumes "0 < maxsize"
    and "distinct (map fst cache)"
    and "card (fst ` set cache \<union> set ks) \<le> maxsize"
    and "\<forall>k\<in>set ks. \<forall>s. \<exists>v. fst (f k s) = Return v"
    and "invoke_all (map (lru_cache_wrapper maxsize f) ks) (cache, s) = (rs, (cache', s'), evs)"
  shows "distinct (map fst cache') \<and> fst ` set cache' = fst ` set cache \<union> set ks
       \<and> (\<forall>k v. map_of cache k = Some v \<longrightarrow> map_of cache' k = Some v)
       \<and> (\<forall>k. executions evs k = (if k \<in> set ks - fst ` set cache then 1 else 0))
       \<and> (\<forall>k r. Executed k r \<in> set evs \<longrightarrow> (\<exists>v. r = Return v \<and> map_of cache' k = Some v))
       \<and> rs = map (\<lambda>k. Return (the (map_of cache' k))) ks"
  using assms
proof (induction ks arbitrary: cache s rs cache' s' evs)
  case Nil
  then show ?case by (auto simp: executions_def)
next
  case (Cons k ks)
  have room: "card (insert k (fst ` set cache)) \<le> maxsize"
  proof -
    have "card (insert k (fst ` set cache)) \<le> card (fst ` set cache \<union> set (k # ks))"
      by (rule card_mono) auto
    then show ?thesis using Cons.prems(3) by linarith
  qed
  have ok: "\<exists>v. fst (f k s) = Return v" using Cons.prems(4) by simp
  obtain v cache1 s1 where
    step: "lru_cache_wrapper maxsize f k (cache, s) =
        (Return v, (cache1, s1),
         if k \<in> fst ` set cache then [Cache_Hit k] else [Executed k (Return v)])"
    and d1: "distinct (map fst cache1)"
    and keys1: "fst ` set cache1 = insert k (fst ` set cache)"
    and m1: "map_of cache1 = (map_of cache)(k \<mapsto> v)"
    using lru_step[of maxsize cache k f s, OF Cons.prems(1) Cons.prems(2) room ok] by blast
  obtain rs2 st2 evs2 where
    rest: "invoke_all (map (lru_cache_wrapper maxsize f) ks) (cache1, s1) = (rs2, st2, evs2)"
    by (metis prod_cases3)
  have res: "rs = Return v # rs2" "st2 = (cache', s')"
    "evs = (if k \<in> fst ` set cache then [Cache_Hit k] else [Executed k (Return v)]) @ evs2"
    using Cons.prems(5) step rest by simp_all
  have room2: "card (fst ` set cache1 \<union> set ks) \<le> maxsize"
    using Cons.prems(3) keys1 by simp
  have ok2: "\<forall>k\<in>set ks. \<forall>s. \<exists>v. fst (f k s) = Return v" using Cons.prems(4) by simp
  note ih = Cons.IH[OF Cons.prems(1) d1 room2 ok2 rest[unfolded res(2)]]
  have kc1: "map_of cache1 k = Some v" using m1 by simp
  have keep: "map_of cache' k = Some v" using ih kc1 by blast
  have hitv: "k \<in> fst ` set cache \<Longrightarrow> map_of cache k = Some v"
  proof -
    assume "k \<in> fst ` set cache"
    then obtain v' where v': "map_of cache k = Some v'"
      by (metis map_of_eq_None_iff not_Some_eq)
    from step v' Cons.prems(1) have "v' = v"
      by (simp add: lru_cache_wrapper_def)
    then show ?thesis using v' by simp
  qed
  have c1: "distinct (map fst cache')" using ih by blast
  have c2: "fst ` set cache' = fst ` set cache \<union> set (k # ks)" using ih keys1 by auto
  have c3: "\<forall>k0 v0. map_of cache k0 = Some v0 \<longrightarrow> map_of cache' k0 = Some v0"
  proof (intro allI impI)
    fix k0 v0 assume a: "map_of cache k0 = Some v0"
    have "map_of cache1 k0 = Some v0"
    proof (cases "k0 = k")
      case True
      then have "k \<in> fst ` set cache" using a by (metis map_of_eq_None_iff option.distinct(1))
      then show ?thesis using hitv a True m1 by simp
    next
      case False
      then show ?thesis using a m1 by simp
    qed
    then show "map_of cache' k0 = Some v0" using ih by blast
  qed
  have c4: "\<forall>k0. executions evs k0 = (if k0 \<in> set (k # ks) - fst ` set cache then 1 else 0)"
  proof
    fix k0
    have e2: "executions evs2 k0 = (if k0 \<in> set ks - fst ` set cache1 then 1 else 0)"
      using ih by blast
    show "executions evs k0 = (if k0 \<in> set (k # ks) - fst ` set cache then 1 else 0)"
      unfolding res(3) executions_append e2 keys1
      by (auto simp: executions_def)
  qed
  have c5: "\<forall>k0 r. Executed k0 r \<in> set evs \<longrightarrow> (\<exists>v. r = Return v \<and> map_of cache' k0 = Some v)"
    using ih keep unfolding res(3) by (auto split: if_splits)
  have c6: "rs = map (\<lambda>k. Return (the (map_of cache' k))) (k # ks)"
    using ih keep res(1) by simp
  show ?case using c1 c2 c3 c4 c5 c6 by blast
qed


text \<open>
  C1, as the code has it. For a callable that returns on the arguments used, and a sequence
  of invocations with at most 128 distinct argument sets (the bound of the bare
  \<open>@lru_cache\<close>): each argument set is executed exactly once, every invocation returns the
  value which that one execution computed, and at the end the cache holds every argument
  set used (nothing was evicted). The notebook's \<open>calculations\<close> takes no arguments, so it
  has one argument set.
\<close>

theorem lru_cache_computes_once:
  assumes "card (set ks) \<le> lru_default_maxsize"
    and "\<forall>k\<in>set ks. \<forall>s. \<exists>v. fst (user_function k s) = Return v"
    and "invoke_all (map (lru_cache user_function) ks) ([], s) = (rs, (cache', s'), evs)"
  shows "(\<forall>k\<in>set ks. executions evs k = 1)
       \<and> length rs = length ks
       \<and> (\<forall>i<length ks. \<exists>v. rs ! i = Return v
              \<and> (\<forall>r. Executed (ks ! i) r \<in> set evs \<longrightarrow> r = Return v))
       \<and> fst ` set cache' = set ks"
proof -
  have run: "invoke_all (map (lru_cache_wrapper lru_default_maxsize user_function) ks) ([], s) =
      (rs, (cache', s'), evs)"
    using assms(3) by (simp add: lru_cache_def[abs_def])
  have p1: "0 < lru_default_maxsize" by (simp add: lru_default_maxsize_def)
  have p2: "distinct (map fst ([] :: ('a \<times> 'c) list))" by simp
  have p3: "card (fst ` set ([] :: ('a \<times> 'c) list) \<union> set ks) \<le> lru_default_maxsize"
    using assms(1) by simp
  note inv = invoke_all_lru[of lru_default_maxsize "[]" ks user_function s rs cache' s' evs,
      OF p1 p2 p3 assms(2) run]
  have a: "\<forall>k\<in>set ks. executions evs k = 1" using inv by simp
  have b: "length rs = length ks" using inv by simp
  have c: "\<forall>i<length ks. \<exists>v. rs ! i = Return v
              \<and> (\<forall>r. Executed (ks ! i) r \<in> set evs \<longrightarrow> r = Return v)"
  proof (intro allI impI)
    fix i assume i: "i < length ks"
    have ri: "rs ! i = Return (the (map_of cache' (ks ! i)))" using inv i by simp
    have "\<forall>r. Executed (ks ! i) r \<in> set evs \<longrightarrow> r = Return (the (map_of cache' (ks ! i)))"
      using inv by fastforce
    then show "\<exists>v. rs ! i = Return v \<and> (\<forall>r. Executed (ks ! i) r \<in> set evs \<longrightarrow> r = Return v)"
      using ri by blast
  qed
  have d: "fst ` set cache' = set ks" using inv by simp
  show ?thesis using a b c d by blast
qed

theorem lru_cache_computes_once_witness:
  "card (set [(), (), ()]) \<le> lru_default_maxsize
   \<and> (\<forall>s. \<exists>v. fst (calculations () s) = Return v)
   \<and> invoke_all (map (lru_cache calculations) [(), (), ()]) ([], []) =
       ([Return True, Return True, Return True], ([((), True)], [3]),
        [Executed () (Return True), Cache_Hit (), Cache_Hit ()])
   \<and> executions [Executed () (Return True), Cache_Hit (), Cache_Hit ()] () = 1"
proof -
  have h1: "card (set [(), (), ()]) \<le> lru_default_maxsize"
    by (simp add: lru_default_maxsize_def)
  have h2: "\<forall>k\<in>set [(), (), ()]. \<forall>s. \<exists>v. fst (calculations k s) = Return v"
    by (auto simp: calculations_def)
  have h3: "invoke_all (map (lru_cache calculations) [(), (), ()]) ([], []) =
       ([Return True, Return True, Return True], ([((), True)], [3]),
        [Executed () (Return True), Cache_Hit (), Cache_Hit ()])"
    by (simp add: lru_cache_def lru_cache_wrapper_def lru_default_maxsize_def calculations_def)
  have "executions [Executed () (Return True), Cache_Hit (), Cache_Hit ()] () = 1"
    using lru_cache_computes_once[OF h1 h2 h3] by simp
  then show ?thesis using h1 h2 h3 by simp
qed

text \<open>
  Beyond the bound the wrapper evicts. The callable \<open>echo\<close> is invoked on the 128
  arguments \<open>0, ..., 127\<close>, then on \<open>128\<close>, which drops the entry of \<open>0\<close>, and then
  on \<open>0\<close> again: the underlying callable is executed on \<open>0\<close> twice.
\<close>

lemma invoke_all_append:
  "invoke_all (xs @ ys) st =
     (case invoke_all xs st of
        (rs1, st1, evs1) \<Rightarrow>
          (case invoke_all ys st1 of (rs2, st2, evs2) \<Rightarrow> (rs1 @ rs2, st2, evs1 @ evs2)))"
  by (induction xs arbitrary: st) (simp_all split: prod.splits)

lemma map_of_echo_cache:
  "map_of (rev (map (\<lambda>k. (k, k)) [m..<n])) j = (if m \<le> j \<and> j < n then Some j else None)"
  by (induction n) (auto simp: map_add_def split: option.splits)

lemma fill_cache:
  "n \<le> lru_default_maxsize \<Longrightarrow>
   invoke_all (map (lru_cache echo) [0..<n]) ([], ()) =
     (map Return [0..<n], (rev (map (\<lambda>k. (k, k)) [0..<n]), ()),
      map (\<lambda>k. Executed k (Return k)) [0..<n])"
proof (induction n)
  case 0
  then show ?case by simp
next
  case (Suc n)
  have "lru_cache echo n (rev (map (\<lambda>k. (k, k)) [0..<n]), ()) =
      (Return n, ((n, n) # rev (map (\<lambda>k. (k, k)) [0..<n]), ()), [Executed n (Return n)])"
    using Suc.prems
    by (simp add: lru_cache_def lru_cache_wrapper_def map_of_echo_cache echo_def
          lru_default_maxsize_def)
  then show ?case using Suc by (simp add: invoke_all_append)
qed

lemma executions_fill:
  "executions (map (\<lambda>k. Executed k (Return k)) [0..<n]) j = (if j < n then 1 else 0)"
  by (induction n) (auto simp: executions_def)

lemma butlast_full_cache:
  "butlast (rev (map (\<lambda>k. (k, k)) [0..<Suc n])) = rev (map (\<lambda>k. (k, k :: nat)) [1..<Suc n])"
proof -
  have "[0..<Suc n] = 0 # [1..<Suc n]" by (simp add: upt_conv_Cons del: upt_Suc)
  then show ?thesis by (simp del: upt_Suc)
qed

theorem lru_cache_evicts_counterexample:
  "executions (snd (snd (invoke_all (map (lru_cache echo) ([0..<128] @ [128, 0])) ([], ())))) 0 = 2"
proof -
  have full: "invoke_all (map (lru_cache echo) [0..<128]) ([], ()) =
     (map Return [0..<128], (rev (map (\<lambda>k. (k, k)) [0..<128]), ()),
      map (\<lambda>k. Executed k (Return k)) [0..<128])"
    by (rule fill_cache) (simp add: lru_default_maxsize_def)
  have evict: "lru_cache echo 128 (rev (map (\<lambda>k. (k, k)) [0..<128]), ()) =
      (Return 128, ((128, 128) # rev (map (\<lambda>k. (k, k)) [1..<128]), ()),
       [Executed 128 (Return 128)])"
    using butlast_full_cache[of 127]
    by (simp add: lru_cache_def lru_cache_wrapper_def map_of_echo_cache echo_def
          lru_default_maxsize_def del: upt_Suc)
  have again: "lru_cache echo 0 ((128, 128) # rev (map (\<lambda>k. (k, k)) [1..<128]), ()) =
      (Return 0, ((0, 0) # butlast ((128, 128) # rev (map (\<lambda>k. (k, k)) [1..<128])), ()),
       [Executed 0 (Return 0)])"
    by (simp add: lru_cache_def lru_cache_wrapper_def map_of_echo_cache echo_def
          lru_default_maxsize_def del: upt_Suc butlast.simps)
  have "snd (snd (invoke_all (map (lru_cache echo) ([0..<128] @ [128, 0])) ([], ()))) =
      map (\<lambda>k. Executed k (Return k)) [0..<128] @ [Executed 128 (Return 128), Executed 0 (Return 0)]"
    by (simp only: map_append invoke_all_append full list.map invoke_all.simps evict again
          prod.case snd_conv append.simps)
  then show ?thesis
    by (simp only: executions_append executions_fill) (simp add: executions_def)
qed


end
